theory Spec2Isabelle
  imports Main
begin

section \<open>Platform values\<close>

text \<open>
  The interception worker (service worker, revision v5) sees three kinds of platform
  values: parsed URLs, requests and responses. A URL is kept in the parsed form that
  \<^verbatim>\<open>new URL(request.url)\<close> hands to the script: the fields the worker reads are
  \<^verbatim>\<open>href\<close>, \<^verbatim>\<open>protocol\<close> (scheme with its colon, e.g. \<^verbatim>\<open>http:\<close>), \<^verbatim>\<open>hostname\<close>,
  \<^verbatim>\<open>pathname\<close> and \<^verbatim>\<open>searchParams\<close> (the decoded name/value pairs of the query).
\<close>

record url =
  href :: string
  protocol :: string
  hostname :: string
  pathname :: string
  searchParams :: "(string \<times> string) list"

text \<open>
  Of a request the worker reads the method, the URL and the \<^verbatim>\<open>accept\<close> header
  (\<^verbatim>\<open>request.headers.get('accept')\<close>, \<open>None\<close> when the header is absent).
\<close>

record request =
  req_method :: string
  req_url :: url
  accept :: "string option"

record response =
  status :: nat
  headers :: "(string \<times> string) list"
  body :: string

subsection \<open>String primitives\<close>

definition startsWith :: "string \<Rightarrow> string \<Rightarrow> bool" where
  "startsWith s p = (take (length p) s = p)"

definition endsWith :: "string \<Rightarrow> string \<Rightarrow> bool" where
  "endsWith s p = (length p \<le> length s \<and> drop (length s - length p) s = p)"

text \<open>\<^verbatim>\<open>String.prototype.includes\<close>: the argument occurs somewhere as a contiguous run.\<close>

fun str_includes :: "string \<Rightarrow> string \<Rightarrow> bool" where
  "str_includes [] sub = (sub = [])"
| "str_includes (c # cs) sub = (startsWith (c # cs) sub \<or> str_includes cs sub)"

text \<open>\<^verbatim>\<open>URLSearchParams.has(name)\<close>.\<close>

definition searchParams_has :: "url \<Rightarrow> string \<Rightarrow> bool" where
  "searchParams_has u name = (name \<in> set (map fst (searchParams u)))"

text \<open>
  \<^verbatim>\<open>Headers.get(name)\<close> on a response: the first value stored under the name. Names
  are compared as the script spells them (\<^verbatim>\<open>Content-Type\<close>, \<^verbatim>\<open>Cache-Control\<close>).
\<close>

definition headers_get :: "response \<Rightarrow> string \<Rightarrow> string option" where
  "headers_get r name = map_of (headers r) name"

text \<open>
  \<^verbatim>\<open>new Response(body, { status, headers })\<close> with a string body. The platform's
  constructor (Fetch standard, "initialize a response") fills in the headers given in
  the init object and, because the body is a string, appends
  \<^verbatim>\<open>Content-Type: text/plain;charset=UTF-8\<close> when the init gave no \<^verbatim>\<open>Content-Type\<close>.
\<close>

definition new_Response :: "string \<Rightarrow> nat \<Rightarrow> (string \<times> string) list \<Rightarrow> response" where
  "new_Response b st hs =
     \<lparr> status = st,
       headers = (if ''Content-Type'' \<in> set (map fst hs) then hs
                  else hs @ [(''Content-Type'', ''text/plain;charset=UTF-8'')]),
       body = b \<rparr>"

text \<open>
  The Cache API refuses to store a response whose \<^verbatim>\<open>Vary\<close> header lists \<^verbatim>\<open>*\<close>
  (\<^verbatim>\<open>cache.put\<close> and \<^verbatim>\<open>cache.addAll\<close> reject with a \<^verbatim>\<open>TypeError\<close>). Header
  names are matched without regard to case; the value is a comma-separated list.
\<close>

definition ascii_lower :: "char \<Rightarrow> char" where
  "ascii_lower c =
     (case map_of (zip ''ABCDEFGHIJKLMNOPQRSTUVWXYZ'' ''abcdefghijklmnopqrstuvwxyz'') c of
        Some l \<Rightarrow> l
      | None \<Rightarrow> c)"

fun split_commas :: "string \<Rightarrow> string list" where
  "split_commas [] = [[]]"
| "split_commas (c # cs) =
     (if c = CHR '','' then [] # split_commas cs
      else (case split_commas cs of f # fs \<Rightarrow> (c # f) # fs | [] \<Rightarrow> [[c]]))"

definition trim_ws :: "string \<Rightarrow> string" where
  "trim_ws s =
     rev (dropWhile (\<lambda>c. c = CHR '' '' \<or> c = CHR 0x09)
       (rev (dropWhile (\<lambda>c. c = CHR '' '' \<or> c = CHR 0x09) s)))"

definition vary_star :: "response \<Rightarrow> bool" where
  "vary_star resp =
     list_ex (\<lambda>(n, v). map ascii_lower n = ''vary'' \<and> ''*'' \<in> set (map trim_ws (split_commas v)))
       (headers resp)"

section \<open>Worker constants\<close>

definition CACHE_NAME :: string where
  "CACHE_NAME = ''wifi-portal-v5''"

definition RUNTIME_CACHE :: string where
  "RUNTIME_CACHE = ''wifi-portal-runtime-v5''"

definition STATIC_ASSETS :: "string list" where
  "STATIC_ASSETS = [''/'', ''/index.html'']"

section \<open>Hotspot detection helpers\<close>

definition isHotspotURL :: "url \<Rightarrow> bool" where
  "isHotspotURL u =
     (let hotspotPaths = [''/login'', ''/logout'', ''/status''];
          isHotspotPath = (pathname u \<in> set hotspotPaths);
          hasHotspotParam =
            (searchParams_has u ''dst'' \<or>
             searchParams_has u ''link-login'' \<or>
             searchParams_has u ''link-orig'' \<or>
             searchParams_has u ''link-logout'' \<or>
             searchParams_has u ''mac'' \<or>
             searchParams_has u ''id'' \<or>
             searchParams_has u ''username'' \<or>
             searchParams_has u ''client-mac-address'')
      in isHotspotPath \<or> hasHotspotParam)"

definition probeHosts :: "string list" where
  "probeHosts =
     [''msftconnecttest.com'',
      ''msftncsi.com'',
      ''captive.apple.com'',
      ''connectivitycheck.gstatic.com'',
      ''connectivitycheck.android.com'',
      ''clients3.google.com'',
      ''detectportal.firefox.com'']"

definition isCaptiveProbe :: "url \<Rightarrow> bool" where
  "isCaptiveProbe u = list_ex (\<lambda>host. str_includes (hostname u) host) probeHosts"

text \<open>
  The remaining branch conditions of the fetch handler, in the order the handler tests
  them. The static-asset test is the regular expression
  \<^verbatim>\<open>/\.(js|css|png|jpg|jpeg|svg|gif|webp|woff|woff2|ttf|eot|ico)$/\<close> on the path (the
  path ends in a dot followed by one of the alternatives) or the \<^verbatim>\<open>/assets/\<close> prefix.
\<close>

definition isApiCall :: "url \<Rightarrow> bool" where
  "isApiCall u = startsWith (pathname u) ''/api/''"

definition staticExtensions :: "string list" where
  "staticExtensions =
     [''js'', ''css'', ''png'', ''jpg'', ''jpeg'', ''svg'', ''gif'', ''webp'',
      ''woff'', ''woff2'', ''ttf'', ''eot'', ''ico'']"

definition isStaticAsset :: "url \<Rightarrow> bool" where
  "isStaticAsset u =
     (list_ex (\<lambda>ext. endsWith (pathname u) (''.'' @ ext)) staticExtensions \<or>
      startsWith (pathname u) ''/assets/'')"

definition isHtmlPage :: "request \<Rightarrow> bool" where
  "isHtmlPage r =
     ((case accept r of None \<Rightarrow> False | Some a \<Rightarrow> str_includes a ''text/html'') \<or>
      pathname (req_url r) = ''/'' \<or>
      endsWith (pathname (req_url r)) ''.html'')"

section \<open>Cache storage\<close>

text \<open>
  The platform's \<^verbatim>\<open>caches\<close> object, as the keyed store the worker relies on: named
  stores in creation order, each a list of URL-keyed entries. \<^verbatim>\<open>caches.open\<close> creates a
  missing store, \<^verbatim>\<open>cache.put\<close> overwrites the entry of its key or adds one,
  \<^verbatim>\<open>caches.match\<close> returns the first entry for the key over all stores in order,
  \<^verbatim>\<open>caches.delete\<close> removes a whole store and \<^verbatim>\<open>caches.keys\<close> enumerates the names.
\<close>

type_synonym cache = "(string \<times> response) list"

type_synonym cache_storage = "(string \<times> cache) list"

definition caches_keys :: "cache_storage \<Rightarrow> string list" where
  "caches_keys cs = map fst cs"

definition caches_open :: "string \<Rightarrow> cache_storage \<Rightarrow> cache_storage" where
  "caches_open name cs = (if name \<in> set (caches_keys cs) then cs else cs @ [(name, [])])"

fun cache_put :: "string \<Rightarrow> response \<Rightarrow> cache \<Rightarrow> cache" where
  "cache_put k r [] = [(k, r)]"
| "cache_put k r ((k', r') # c) =
     (if k' = k then (k, r) # c else (k', r') # cache_put k r c)"

definition update_cache :: "string \<Rightarrow> (cache \<Rightarrow> cache) \<Rightarrow> cache_storage \<Rightarrow> cache_storage" where
  "update_cache name f cs = map (\<lambda>(n, c). if n = name then (n, f c) else (n, c)) cs"

text \<open>\<^verbatim>\<open>caches.open(name).then(cache => cache.put(key, response))\<close>.\<close>

definition caches_put :: "string \<Rightarrow> string \<Rightarrow> response \<Rightarrow> cache_storage \<Rightarrow> cache_storage" where
  "caches_put name k r cs = update_cache name (cache_put k r) (caches_open name cs)"

fun caches_match :: "string \<Rightarrow> cache_storage \<Rightarrow> response option" where
  "caches_match k [] = None"
| "caches_match k ((n, c) # cs) =
     (case map_of c k of Some r \<Rightarrow> Some r | None \<Rightarrow> caches_match k cs)"

definition caches_delete :: "string \<Rightarrow> cache_storage \<Rightarrow> cache_storage" where
  "caches_delete name cs = filter (\<lambda>(n, c). n \<noteq> name) cs"

text \<open>The entry a named store holds under a key (\<open>None\<close> also when the store is missing).\<close>

definition cache_entry :: "cache_storage \<Rightarrow> string \<Rightarrow> string \<Rightarrow> response option" where
  "cache_entry cs name k = (case map_of cs name of None \<Rightarrow> None | Some c \<Rightarrow> map_of c k)"

section \<open>Effects and the network\<close>

text \<open>
  What a handler does besides computing its answer is recorded as a list of effects, in
  the order the script performs them. The \<^verbatim>\<open>console.log\<close> trace lines are left out;
  \<^verbatim>\<open>console.error\<close> calls are kept.
\<close>

datatype effect =
    NetFetch string
  | CacheMatch string
  | CacheOpen string
  | CachePut string string
  | CacheKeys
  | CacheDelete string
  | ConsoleError string
  | SkipWaiting
  | ClientsClaim

text \<open>
  The network is the answer \<^verbatim>\<open>fetch\<close> gives for a GET of a URL: \<open>Inr\<close> a response (of
  any status) when the promise fulfils, \<open>Inl\<close> the error message when it rejects.
\<close>

type_synonym network = "string \<Rightarrow> string + response"

record fetch_result =
  respondWith :: "response option"
  caches_after :: cache_storage
  effects :: "effect list"

text \<open>
  The promise a lifecycle handler passes to \<^verbatim>\<open>event.waitUntil\<close>: \<open>waitUntil = None\<close>
  when it fulfils, \<open>Some e\<close> when it rejects with \<open>e\<close>.
\<close>

record lifecycle_result =
  stores :: cache_storage
  trace :: "effect list"
  waitUntil :: "string option"

text \<open>
  A relative URL such as \<^verbatim>\<open>'/index.html'\<close> given to \<^verbatim>\<open>caches.match\<close> or
  \<^verbatim>\<open>cache.addAll\<close> is resolved against the worker's own origin.
\<close>

definition resolve :: "string \<Rightarrow> string \<Rightarrow> string" where
  "resolve origin path = origin @ path"

section \<open>Lifecycle: install, activate, messages\<close>

text \<open>
  \<^verbatim>\<open>cache.addAll(urls)\<close> fetches every URL and stores the responses only when all of
  them arrived with an ok status (200 to 299, and not 206) and none of them has
  \<^verbatim>\<open>Vary: *\<close>; otherwise its promise rejects and nothing is stored.
\<close>

definition addAll_ok :: "string + response \<Rightarrow> bool" where
  "addAll_ok a =
     (case a of Inl e \<Rightarrow> False
      | Inr r \<Rightarrow> 200 \<le> status r \<and> status r \<le> 299 \<and> status r \<noteq> 206 \<and> \<not> vary_star r)"

definition cache_addAll :: "network \<Rightarrow> string list \<Rightarrow> cache \<Rightarrow> string + cache" where
  "cache_addAll net urls c =
     (if list_all (\<lambda>u. addAll_ok (net u)) urls
      then Inr (fold (\<lambda>u c'. case net u of Inr r \<Rightarrow> cache_put u r c' | Inl e \<Rightarrow> c') urls c)
      else Inl ''TypeError: Failed to execute addAll on Cache: Request failed'')"

text \<open>
  The install handler:
  \<^verbatim>\<open>caches.open(CACHE_NAME).then(cache => cache.addAll(STATIC_ASSETS))
      .then(() => self.skipWaiting()).catch(error => console.error(...))\<close>.
  A rejection of \<^verbatim>\<open>addAll\<close> skips the \<^verbatim>\<open>skipWaiting\<close> step and lands in the
  \<^verbatim>\<open>catch\<close>, whose result fulfils the promise given to \<^verbatim>\<open>waitUntil\<close>.
\<close>

definition install :: "string \<Rightarrow> network \<Rightarrow> cache_storage \<Rightarrow> lifecycle_result" where
  "install origin net cs =
     (let urls = map (resolve origin) STATIC_ASSETS;
          cs1 = caches_open CACHE_NAME cs;
          seeded = cache_addAll net urls (case map_of cs1 CACHE_NAME of Some c \<Rightarrow> c | None \<Rightarrow> [])
      in case seeded of
           Inr c' \<Rightarrow>
             \<lparr> stores = update_cache CACHE_NAME (\<lambda>c. c') cs1,
               trace = CacheOpen CACHE_NAME # map NetFetch urls @ map (CachePut CACHE_NAME) urls
                         @ [SkipWaiting],
               waitUntil = None \<rparr>
         | Inl error \<Rightarrow>
             \<lparr> stores = cs1,
               trace = CacheOpen CACHE_NAME # map NetFetch urls
                         @ [ConsoleError (''[SW] Install failed: '' @ error)],
               waitUntil = None \<rparr>)"

text \<open>
  The activate handler: every store name other than the two current ones is deleted,
  then the worker claims its clients.
\<close>

definition activate :: "cache_storage \<Rightarrow> lifecycle_result" where
  "activate cs =
     (let names = caches_keys cs;
          old = filter (\<lambda>n. n \<noteq> CACHE_NAME \<and> n \<noteq> RUNTIME_CACHE) names
      in \<lparr> stores = fold caches_delete old cs,
           trace = CacheKeys # map CacheDelete old @ [ClientsClaim],
           waitUntil = None \<rparr>)"


section \<open>The fetch handler\<close>

subsection \<open>Synthesized bodies\<close>

text \<open>
  The loading page of the hotspot branch is the template literal of the script, line
  by line, joined by newlines. A response body is the UTF-8 encoding of the string, so
  the three pictographs of the page appear as their four bytes each.
\<close>

fun join_lines :: "string list \<Rightarrow> string" where
  "join_lines [] = []"
| "join_lines [l] = l"
| "join_lines (l # m # ls) = l @ [CHR 0x0A] @ join_lines (m # ls)"

definition loading_page_lines :: "string list" where
  "loading_page_lines =
     [''<!DOCTYPE html>'',
      ''<html>'',
      ''<head>'',
      ''  <meta charset='' @ [CHR 0x22] @ ''UTF-8'' @ [CHR 0x22] @ ''>'',
      ''  <meta name='' @ [CHR 0x22] @ ''viewport'' @ [CHR 0x22] @ '' content='' @ [CHR 0x22] @ ''width=device-width, initial-scale=1.0'' @ [CHR 0x22] @ ''>'',
      ''  <title>WiFi Portal Loading...</title>'',
      ''  <style>'',
      ''    body { '',
      ''      font-family: system-ui, -apple-system, sans-serif; '',
      ''      text-align: center; '',
      ''      padding: 50px 20px;'',
      ''      background: linear-gradient(135deg, #667eea 0%, #764ba2 100%);'',
      ''      color: white;'',
      ''    }'',
      ''    .container { max-width: 500px; margin: 0 auto; background: white; '',
      ''                 color: #333; padding: 40px; border-radius: 20px; '',
      ''                 box-shadow: 0 20px 60px rgba(0,0,0,0.3); }'',
      ''    .spinner { border: 4px solid #f3f3f3; border-top: 4px solid #667eea; '',
      ''                border-radius: 50%; width: 50px; height: 50px; '',
      ''                animation: spin 1s linear infinite; margin: 30px auto; }'',
      ''    @keyframes spin { 0% { transform: rotate(0deg); } 100% { transform: rotate(360deg); } }'',
      ''    .info { background: #f0f4ff; padding: 15px; border-radius: 10px; '',
      ''            margin: 20px 0; font-size: 14px; text-align: left; }'',
      ''    .info strong { color: #667eea; }'',
      ''  </style>'',
      ''</head>'',
      ''<body>'',
      ''  <div class='' @ [CHR 0x22] @ ''container'' @ [CHR 0x22] @ ''>'',
      ''    <h2>'' @ [CHR 0xF0, CHR 0x9F, CHR 0x8C, CHR 0x90] @ '' Loading WiFi Portal</h2>'',
      ''    <div class='' @ [CHR 0x22] @ ''spinner'' @ [CHR 0x22] @ ''></div>'',
      ''    <p>Please wait while we set up your connection...</p>'',
      ''    <div class='' @ [CHR 0x22] @ ''info'' @ [CHR 0x22] @ ''>'',
      ''      <strong>Connection Details:</strong><br>'',
      ''      <span id='' @ [CHR 0x22] @ ''details'' @ [CHR 0x22] @ ''>Detecting device...</span>'',
      ''    </div>'',
      ''  </div>'',
      ''  <script>'',
      ''    console.log('' @ [CHR 0x27, CHR 0xF0, CHR 0x9F, CHR 0x94, CHR 0x8D] @ '' [Fallback] URL:'' @ [CHR 0x27] @ '', window.location.href);'',
      ''    console.log('' @ [CHR 0x27, CHR 0xF0, CHR 0x9F, CHR 0x94, CHR 0x8D] @ '' [Fallback] Params:'' @ [CHR 0x27] @ '', window.location.search);'',
      ''    '',
      ''    const params = new URLSearchParams(window.location.search);'',
      ''    const mac = params.get('' @ [CHR 0x27] @ ''mac'' @ [CHR 0x27] @ '') || params.get('' @ [CHR 0x27] @ ''id'' @ [CHR 0x27] @ '') || params.get('' @ [CHR 0x27] @ ''username'' @ [CHR 0x27] @ '') || '' @ [CHR 0x27] @ ''Detecting...'' @ [CHR 0x27] @ '';'',
      ''    const dst = params.get('' @ [CHR 0x27] @ ''dst'' @ [CHR 0x27] @ '') || params.get('' @ [CHR 0x27] @ ''link-orig'' @ [CHR 0x27] @ '') || '' @ [CHR 0x27] @ ''Unknown'' @ [CHR 0x27] @ '';'',
      ''    '',
      ''    document.getElementById('' @ [CHR 0x27] @ ''details'' @ [CHR 0x27] @ '').innerHTML = '',
      ''      '' @ [CHR 0x27] @ ''MAC: '' @ [CHR 0x27] @ '' + mac + '' @ [CHR 0x27] @ ''<br>'' @ [CHR 0x27] @ '' +'',
      ''      '' @ [CHR 0x27] @ ''Redirect: '' @ [CHR 0x27] @ '' + (dst.length > 50 ? dst.substring(0, 50) + '' @ [CHR 0x27] @ ''...'' @ [CHR 0x27] @ '' : dst);'',
      ''    '',
      ''    console.log('' @ [CHR 0x27, CHR 0xF0, CHR 0x9F, CHR 0x94, CHR 0x8D] @ '' [Fallback] MAC:'' @ [CHR 0x27] @ '', mac);'',
      ''    '',
      ''    // Reload after brief delay to let SW activate'',
      ''    setTimeout(() => {'',
      ''      console.log('' @ [CHR 0x27, CHR 0xF0, CHR 0x9F, CHR 0x94, CHR 0x84] @ '' [Fallback] Reloading...'' @ [CHR 0x27] @ '');'',
      ''      window.location.reload();'',
      ''    }, 2000);'',
      ''  </script>'',
      ''</body>'',
      ''</html>'']"

definition loading_page :: string where
  "loading_page = join_lines loading_page_lines"

text \<open>\<^verbatim>\<open>JSON.stringify\<close> of a string: quoted, with the escapes of the JSON grammar.\<close>

definition hex_digit :: "nat \<Rightarrow> char" where
  "hex_digit n = (if n < 10 then char_of (48 + n) else char_of (87 + n))"

definition json_escape :: "char \<Rightarrow> string" where
  "json_escape c =
     (if c = CHR 0x22 then [CHR 0x5C, CHR 0x22]
      else if c = CHR 0x5C then [CHR 0x5C, CHR 0x5C]
      else if c = CHR 0x08 then [CHR 0x5C, CHR ''b'']
      else if c = CHR 0x0C then [CHR 0x5C, CHR ''f'']
      else if c = CHR 0x0A then [CHR 0x5C, CHR ''n'']
      else if c = CHR 0x0D then [CHR 0x5C, CHR ''r'']
      else if c = CHR 0x09 then [CHR 0x5C, CHR ''t'']
      else if (of_char c :: nat) < 32
        then [CHR 0x5C, CHR ''u'', CHR ''0'', CHR ''0'',
              hex_digit (of_char c div 16), hex_digit (of_char c mod 16)]
      else [c])"

definition json_quote :: "string \<Rightarrow> string" where
  "json_quote s = [CHR 0x22] @ concat (map json_escape s) @ [CHR 0x22]"

text \<open>
  The error envelope of the API branch:
  \<^verbatim>\<open>JSON.stringify({ success: false, error: 'Cannot connect to backend server',
      details: error.message, url: url.href })\<close>.
\<close>

definition api_error_body :: "string \<Rightarrow> string \<Rightarrow> string" where
  "api_error_body msg link =
     ''{'' @ json_quote ''success'' @ '':false,'' @
     json_quote ''error'' @ '':'' @ json_quote ''Cannot connect to backend server'' @ '','' @
     json_quote ''details'' @ '':'' @ json_quote msg @ '','' @
     json_quote ''url'' @ '':'' @ json_quote link @ ''}''"

subsection \<open>Branches\<close>

text \<open>
  The guard shared by the static-asset, HTML and default branches:
  \<^verbatim>\<open>if (response && response.status === 200) {
       const clone = response.clone();
       caches.open(RUNTIME_CACHE).then(cache => cache.put(request, clone)); }\<close>.
  The script neither awaits this promise nor catches its rejection. \<^verbatim>\<open>cache.put\<close>
  rejects with a \<^verbatim>\<open>TypeError\<close> when the request is not a GET over http or https, when
  the response has status 206 or when its \<^verbatim>\<open>Vary\<close> header lists \<^verbatim>\<open>*\<close>, and with a
  \<^verbatim>\<open>QuotaExceededError\<close> when the origin's storage quota does not admit the entry
  (\<open>quota\<close> is \<open>True\<close> when it does). A rejected write stores nothing: the runtime store
  has been opened (and created if it was missing), and the rejection reaches the
  worker's \<^verbatim>\<open>unhandledrejection\<close> listener, which logs it. The storage a handler leaves
  behind is the one in which an accepted write has completed.
\<close>

definition put_rejected :: "request \<Rightarrow> response \<Rightarrow> bool" where
  "put_rejected r resp =
     (vary_star resp \<or> status resp = 206 \<or> req_method r \<noteq> ''GET'' \<or>
      (protocol (req_url r) \<noteq> ''http:'' \<and> protocol (req_url r) \<noteq> ''https:''))"

definition store_if_200 :: "bool \<Rightarrow> request \<Rightarrow> response \<Rightarrow> cache_storage
    \<Rightarrow> cache_storage \<times> effect list" where
  "store_if_200 quota r resp cs =
     (if status resp = 200
      then (if put_rejected r resp
            then (caches_open RUNTIME_CACHE cs,
                  [CacheOpen RUNTIME_CACHE, ConsoleError ''[SW] Unhandled rejection: TypeError''])
            else if \<not> quota
            then (caches_open RUNTIME_CACHE cs,
                  [CacheOpen RUNTIME_CACHE,
                   ConsoleError ''[SW] Unhandled rejection: QuotaExceededError''])
            else (caches_put RUNTIME_CACHE (href (req_url r)) resp cs,
                  [CacheOpen RUNTIME_CACHE, CachePut RUNTIME_CACHE (href (req_url r))]))
      else (cs, []))"

text \<open>1. Hotspot URLs: network, then the cached \<^verbatim>\<open>/index.html\<close>, then the loading page.\<close>

definition hotspot_branch :: "string \<Rightarrow> network \<Rightarrow> cache_storage \<Rightarrow> request \<Rightarrow> fetch_result" where
  "hotspot_branch origin net cs r =
     (let key = href (req_url r) in
      case net key of
        Inr resp \<Rightarrow> \<lparr> respondWith = Some resp, caches_after = cs, effects = [NetFetch key] \<rparr>
      | Inl error \<Rightarrow>
          (case caches_match (resolve origin ''/index.html'') cs of
             Some cached \<Rightarrow>
               \<lparr> respondWith = Some cached, caches_after = cs,
                 effects = [NetFetch key, CacheMatch (resolve origin ''/index.html'')] \<rparr>
           | None \<Rightarrow>
               \<lparr> respondWith = Some (new_Response loading_page 200
                   [(''Content-Type'', ''text/html; charset=utf-8''),
                    (''Cache-Control'', ''no-cache, no-store, must-revalidate'')]),
                 caches_after = cs,
                 effects = [NetFetch key, CacheMatch (resolve origin ''/index.html'')] \<rparr>))"

text \<open>2. Captive portal probes: network, else an empty 503.\<close>

definition probe_branch :: "network \<Rightarrow> cache_storage \<Rightarrow> request \<Rightarrow> fetch_result" where
  "probe_branch net cs r =
     (let key = href (req_url r) in
      case net key of
        Inr resp \<Rightarrow> \<lparr> respondWith = Some resp, caches_after = cs, effects = [NetFetch key] \<rparr>
      | Inl error \<Rightarrow>
          \<lparr> respondWith = Some (new_Response [] 503 []), caches_after = cs,
            effects = [NetFetch key] \<rparr>)"

text \<open>3. API calls: network, else the JSON error envelope with status 503.\<close>

definition api_branch :: "network \<Rightarrow> cache_storage \<Rightarrow> request \<Rightarrow> fetch_result" where
  "api_branch net cs r =
     (let key = href (req_url r) in
      case net key of
        Inr resp \<Rightarrow> \<lparr> respondWith = Some resp, caches_after = cs, effects = [NetFetch key] \<rparr>
      | Inl error \<Rightarrow>
          \<lparr> respondWith = Some (new_Response (api_error_body error key) 503
              [(''Content-Type'', ''application/json'')]),
            caches_after = cs,
            effects = [NetFetch key,
                       ConsoleError (''[SW] API call failed: '' @ error),
                       ConsoleError (''[SW] Failed URL: '' @ key)] \<rparr>)"

text \<open>4. Static assets: cache first.\<close>

definition static_branch :: "network \<Rightarrow> bool \<Rightarrow> cache_storage \<Rightarrow> request \<Rightarrow> fetch_result" where
  "static_branch net quota cs r =
     (let key = href (req_url r) in
      case caches_match key cs of
        Some cached \<Rightarrow>
          \<lparr> respondWith = Some cached, caches_after = cs, effects = [CacheMatch key] \<rparr>
      | None \<Rightarrow>
          (case net key of
             Inr resp \<Rightarrow>
               (let (cs', written) = store_if_200 quota r resp cs in
                \<lparr> respondWith = Some resp, caches_after = cs',
                  effects = [CacheMatch key, NetFetch key] @ written \<rparr>)
           | Inl error \<Rightarrow>
               \<lparr> respondWith = Some (new_Response ''Asset unavailable'' 503 []),
                 caches_after = cs, effects = [CacheMatch key, NetFetch key] \<rparr>))"

text \<open>5. HTML pages: network first, then the cache, then \<^verbatim>\<open>/index.html\<close>, then an offline page.\<close>

definition html_branch :: "string \<Rightarrow> network \<Rightarrow> bool \<Rightarrow> cache_storage \<Rightarrow> request \<Rightarrow> fetch_result" where
  "html_branch origin net quota cs r =
     (let key = href (req_url r) in
      case net key of
        Inr resp \<Rightarrow>
          (let (cs', written) = store_if_200 quota r resp cs in
           \<lparr> respondWith = Some resp, caches_after = cs', effects = NetFetch key # written \<rparr>)
      | Inl error \<Rightarrow>
          (case caches_match key cs of
             Some cached \<Rightarrow>
               \<lparr> respondWith = Some cached, caches_after = cs,
                 effects = [NetFetch key, CacheMatch key] \<rparr>
           | None \<Rightarrow>
               (case caches_match (resolve origin ''/index.html'') cs of
                  Some cached \<Rightarrow>
                    \<lparr> respondWith = Some cached, caches_after = cs,
                      effects = [NetFetch key, CacheMatch key,
                                 CacheMatch (resolve origin ''/index.html'')] \<rparr>
                | None \<Rightarrow>
                    \<lparr> respondWith = Some (new_Response ''<html><body><p>Offline</p></body></html>''
                        200 [(''Content-Type'', ''text/html'')]),
                      caches_after = cs,
                      effects = [NetFetch key, CacheMatch key,
                                 CacheMatch (resolve origin ''/index.html'')] \<rparr>)))"

text \<open>6. Default: network first, then the cache, then an empty 503.\<close>

definition default_branch :: "network \<Rightarrow> bool \<Rightarrow> cache_storage \<Rightarrow> request \<Rightarrow> fetch_result" where
  "default_branch net quota cs r =
     (let key = href (req_url r) in
      case net key of
        Inr resp \<Rightarrow>
          (let (cs', written) = store_if_200 quota r resp cs in
           \<lparr> respondWith = Some resp, caches_after = cs', effects = NetFetch key # written \<rparr>)
      | Inl error \<Rightarrow>
          (case caches_match key cs of
             Some cached \<Rightarrow>
               \<lparr> respondWith = Some cached, caches_after = cs,
                 effects = [NetFetch key, CacheMatch key] \<rparr>
           | None \<Rightarrow>
               \<lparr> respondWith = Some (new_Response [] 503 []), caches_after = cs,
                 effects = [NetFetch key, CacheMatch key] \<rparr>))"

subsection \<open>The handler\<close>

text \<open>
  The handler takes the worker's origin, the network, the quota verdict for the write it
  may attempt, the cache storage and the request. \<open>respondWith = None\<close> says that the handler returned without calling
  \<^verbatim>\<open>event.respondWith\<close>, which leaves the request to the browser.
\<close>

definition not_intercepted :: "cache_storage \<Rightarrow> fetch_result" where
  "not_intercepted cs = \<lparr> respondWith = None, caches_after = cs, effects = [] \<rparr>"

definition fetch_handler :: "string \<Rightarrow> network \<Rightarrow> bool \<Rightarrow> cache_storage \<Rightarrow> request
    \<Rightarrow> fetch_result" where
  "fetch_handler origin net quota cs r =
     (let u = req_url r in
      if req_method r \<noteq> ''GET'' then not_intercepted cs
      else if \<not> startsWith (protocol u) ''http'' then not_intercepted cs
      else if isHotspotURL u then hotspot_branch origin net cs r
      else if isCaptiveProbe u then probe_branch net cs r
      else if isApiCall u then api_branch net cs r
      else if isStaticAsset u then static_branch net quota cs r
      else if isHtmlPage r then html_branch origin net quota cs r
      else default_branch net quota cs r)"

subsection \<open>Traffic classes\<close>

text \<open>
  The class of a request is the branch the handler takes for it: the same tests in the
  same order.
\<close>

datatype traffic_class =
    Ignored
  | CaptivePortalLogin
  | OsConnectivityProbe
  | BackendApiCall
  | StaticAsset
  | HtmlDocument
  | Default

definition classify :: "request \<Rightarrow> traffic_class" where
  "classify r =
     (let u = req_url r in
      if req_method r \<noteq> ''GET'' then Ignored
      else if \<not> startsWith (protocol u) ''http'' then Ignored
      else if isHotspotURL u then CaptivePortalLogin
      else if isCaptiveProbe u then OsConnectivityProbe
      else if isApiCall u then BackendApiCall
      else if isStaticAsset u then StaticAsset
      else if isHtmlPage r then HtmlDocument
      else Default)"

section \<open>The worker as a transition system on the cache storage\<close>

text \<open>
  The events the worker listens to, and the cache storage each handler leaves behind.
\<close>

datatype operation =
    Install network
  | Activate
  | Fetch network bool request
  | Message string



section \<open>Requests a browser delivers\<close>

text \<open>
  The URL schemes a browser implements, and with them the protocols a request handed to
  the worker's fetch listener can have: the schemes of the Fetch standard (\<^verbatim>\<open>http\<close>,
  \<^verbatim>\<open>https\<close>, \<^verbatim>\<open>about\<close>, \<^verbatim>\<open>blob\<close>, \<^verbatim>\<open>data\<close>, \<^verbatim>\<open>file\<close>), the WebSocket and FTP
  schemes, and the browsers' own extension and internal schemes (the source's earlier
  revisions comment the guard "Skip chrome extensions and other protocols").
\<close>

definition browser_protocols :: "string list" where
  "browser_protocols =
     [''http:'', ''https:'', ''about:'', ''blob:'', ''data:'', ''file:'', ''ftp:'', ''ws:'',
      ''wss:'', ''chrome-extension:'', ''moz-extension:'', ''safari-web-extension:'',
      ''chrome:'', ''edge:'', ''resource:'', ''view-source:'', ''javascript:'', ''mailto:'']"

section \<open>Example requests\<close>

text \<open>
  Concrete requests of a portal served from \<^verbatim>\<open>http://portal.lan\<close>, used to evaluate
  the handlers. \<open>offline\<close> is the network on which every fetch is rejected.
\<close>

definition portal :: string where
  "portal = ''http://portal.lan''"

definition offline :: network where
  "offline u = Inl ''Failed to fetch''"

definition get_request :: "string \<Rightarrow> string \<Rightarrow> string \<Rightarrow> string \<Rightarrow> (string \<times> string) list
    \<Rightarrow> string option \<Rightarrow> request" where
  "get_request link proto host path params acc =
     \<lparr> req_method = ''GET'',
       req_url = \<lparr> href = link, protocol = proto, hostname = host, pathname = path,
                   searchParams = params \<rparr>,
       accept = acc \<rparr>"

definition status_request :: request where
  "status_request =
     get_request ''http://portal.lan/status?dst=http://example.com'' ''http:'' ''portal.lan''
       ''/status'' [(''dst'', ''http://example.com'')] (Some ''text/html,application/xhtml+xml'')"

definition login_html_request :: request where
  "login_html_request =
     get_request ''http://portal.lan/login.html'' ''http:'' ''portal.lan''
       ''/login.html'' [] (Some ''text/html,application/xhtml+xml'')"

definition login_request :: request where
  "login_request =
     get_request ''http://portal.lan/login?dst=http%3A%2F%2Fexample.com'' ''http:''
       ''portal.lan'' ''/login'' [(''dst'', ''http://example.com'')] (Some ''text/html'')"

definition api_request :: request where
  "api_request =
     get_request ''http://portal.lan/api/packages'' ''http:'' ''portal.lan''
       ''/api/packages'' [] (Some ''application/json'')"

definition post_request :: request where
  "post_request = api_request \<lparr> req_method := ''POST'' \<rparr>"

definition extension_request :: request where
  "extension_request =
     get_request ''chrome-extension://abcdef/content.js'' ''chrome-extension:'' ''abcdef''
       ''/content.js'' [] None"

definition probe_like_request :: request where
  "probe_like_request =
     get_request ''http://msftncsi.com.evil.example/ncsi.txt'' ''http:''
       ''msftncsi.com.evil.example'' ''/ncsi.txt'' [] None"

definition probe_login_request :: request where
  "probe_login_request =
     get_request ''http://msftncsi.com.evil.example/login'' ''http:''
       ''msftncsi.com.evil.example'' ''/login'' [] None"

definition asset_request :: request where
  "asset_request =
     get_request ''http://portal.lan/assets/app-abc123.js'' ''http:'' ''portal.lan''
       ''/assets/app-abc123.js'' [] (Some ''*/*'')"

definition root_request :: request where
  "root_request =
     get_request ''http://portal.lan/'' ''http:'' ''portal.lan'' ''/'' [] (Some ''text/html'')"

definition data_request :: request where
  "data_request =
     get_request ''http://portal.lan/data'' ''http:'' ''portal.lan'' ''/data'' [] (Some ''*/*'')"

definition ok_response :: "string \<Rightarrow> response" where
  "ok_response b = \<lparr> status = 200, headers = [(''Content-Type'', ''text/html'')], body = b \<rparr>"

definition online :: "response \<Rightarrow> network" where
  "online resp u = Inr resp"

definition index_response :: response where
  "index_response = ok_response ''<!doctype html><div id=root></div>''"




section \<open>Basic facts\<close>

lemma startsWith_iff: "startsWith s p \<longleftrightarrow> (\<exists>t. s = p @ t)"
  unfolding startsWith_def
  by (metis append_eq_conv_conj append_take_drop_id)

lemma str_includes_iff: "str_includes s sub \<longleftrightarrow> (\<exists>pre post. s = pre @ sub @ post)"
proof (induction s)
  case Nil
  then show ?case by auto
next
  case (Cons c cs)
  show ?case
  proof
    assume "str_includes (c # cs) sub"
    then consider "startsWith (c # cs) sub" | "str_includes cs sub" by auto
    then show "\<exists>pre post. c # cs = pre @ sub @ post"
    proof cases
      case 1
      then obtain t where "c # cs = sub @ t" by (auto simp: startsWith_iff)
      then have "c # cs = [] @ sub @ t" by simp
      then show ?thesis by blast
    next
      case 2
      then obtain pre post where "cs = pre @ sub @ post" using Cons.IH by blast
      then have "c # cs = (c # pre) @ sub @ post" by simp
      then show ?thesis by blast
    qed
  next
    assume "\<exists>pre post. c # cs = pre @ sub @ post"
    then obtain pre post where eq: "c # cs = pre @ sub @ post" by blast
    show "str_includes (c # cs) sub"
    proof (cases pre)
      case Nil
      with eq have "startsWith (c # cs) sub" by (auto simp: startsWith_iff)
      then show ?thesis by simp
    next
      case (Cons p ps)
      with eq have "cs = ps @ sub @ post" by simp
      then have "str_includes cs sub" using Cons.IH by blast
      then show ?thesis by simp
    qed
  qed
qed

lemma fold_caches_delete:
  "fold caches_delete ns cs = filter (\<lambda>(n, c). n \<notin> set ns) cs"
proof (induction ns arbitrary: cs)
  case Nil
  then show ?case by simp
next
  case (Cons a ns)
  have "filter (\<lambda>(n, c). n \<notin> set ns) (caches_delete a cs) = filter (\<lambda>(n, c). n \<notin> set (a # ns)) cs"
    unfolding caches_delete_def by (induction cs) auto
  with Cons show ?case by simp
qed

lemma stores_activate:
  "stores (activate cs) = filter (\<lambda>(n, c). n = CACHE_NAME \<or> n = RUNTIME_CACHE) cs"
proof -
  have "filter (\<lambda>(n, c). n \<notin> set (filter (\<lambda>n. n \<noteq> CACHE_NAME \<and> n \<noteq> RUNTIME_CACHE) (map fst cs))) cs
        = filter (\<lambda>(n, c). n = CACHE_NAME \<or> n = RUNTIME_CACHE) cs"
    by (rule filter_cong) (auto simp: image_iff)
  then show ?thesis
    by (simp add: activate_def Let_def fold_caches_delete caches_keys_def)
qed

section \<open>Version rollover\<close>

text \<open>
  Claim C7. After the activate handler has run, the stores that remain are exactly the
  stores named \<open>CACHE_NAME\<close> or \<open>RUNTIME_CACHE\<close> that existed before, with their entries
  untouched; every store of another name is gone from the enumeration \<open>caches_keys\<close>.
\<close>

theorem activate_purges_stale_stores:
  "stores (activate cs) = filter (\<lambda>(n, c). n = CACHE_NAME \<or> n = RUNTIME_CACHE) cs \<and>
   caches_keys (stores (activate cs)) =
     filter (\<lambda>n. n = CACHE_NAME \<or> n = RUNTIME_CACHE) (caches_keys cs) \<and>
   set (caches_keys (stores (activate cs))) = set (caches_keys cs) \<inter> {CACHE_NAME, RUNTIME_CACHE} \<and>
   cache_entry (stores (activate cs)) CACHE_NAME = cache_entry cs CACHE_NAME \<and>
   cache_entry (stores (activate cs)) RUNTIME_CACHE = cache_entry cs RUNTIME_CACHE"
proof -
  let ?keep = "\<lambda>n. n = CACHE_NAME \<or> n = RUNTIME_CACHE"
  have a: "stores (activate cs) = filter (\<lambda>(n, c). ?keep n) cs" by (rule stores_activate)
  have b: "map fst (filter (\<lambda>(n, c). ?keep n) cs) = filter ?keep (map fst cs)"
    by (induction cs) auto
  have c: "map_of (filter (\<lambda>(n, c). ?keep n) cs) n = map_of cs n" if "?keep n" for n
    using that by (induction cs) auto
  show ?thesis
    unfolding a using b c by (auto simp: caches_keys_def cache_entry_def)
qed

section \<open>Evaluating the classifier and the handler\<close>

lemmas classifier_defs =
  classify_def isHotspotURL_def searchParams_has_def isCaptiveProbe_def probeHosts_def
  isApiCall_def isStaticAsset_def staticExtensions_def isHtmlPage_def startsWith_def
  endsWith_def Let_def

lemmas request_defs =
  get_request_def status_request_def login_html_request_def login_request_def
  api_request_def post_request_def extension_request_def
  probe_like_request_def probe_login_request_def asset_request_def root_request_def
  data_request_def portal_def offline_def ok_response_def online_def

lemmas branch_defs =
  hotspot_branch_def probe_branch_def api_branch_def static_branch_def html_branch_def
  default_branch_def not_intercepted_def store_if_200_def

text \<open>The handler takes the branch of the request's class.\<close>

lemma fetch_handler_by_class:
  "fetch_handler origin net quota cs r =
     (case classify r of
        Ignored \<Rightarrow> not_intercepted cs
      | CaptivePortalLogin \<Rightarrow> hotspot_branch origin net cs r
      | OsConnectivityProbe \<Rightarrow> probe_branch net cs r
      | BackendApiCall \<Rightarrow> api_branch net cs r
      | StaticAsset \<Rightarrow> static_branch net quota cs r
      | HtmlDocument \<Rightarrow> html_branch origin net quota cs r
      | Default \<Rightarrow> default_branch net quota cs r)"
  by (simp add: fetch_handler_def classify_def Let_def)

lemma example_classes:
  "classify status_request = CaptivePortalLogin"
  "classify login_html_request = HtmlDocument"
  "classify login_request = CaptivePortalLogin"
  "classify api_request = BackendApiCall"
  "classify post_request = Ignored"
  "classify extension_request = Ignored"
  "classify probe_like_request = OsConnectivityProbe"
  "classify probe_login_request = CaptivePortalLogin"
  "classify asset_request = StaticAsset"
  "classify root_request = HtmlDocument"
  "classify data_request = Default"
  by (simp_all add: request_defs classifier_defs)

text \<open>The three network-only branches never touch the cache storage.\<close>

lemma hotspot_branch_frame:
  "caches_after (hotspot_branch origin net cs r) = cs \<and>
   CachePut name key \<notin> set (effects (hotspot_branch origin net cs r))"
  by (simp add: hotspot_branch_def Let_def split: sum.split option.split)

lemma probe_branch_frame:
  "caches_after (probe_branch net cs r) = cs \<and>
   CachePut name key \<notin> set (effects (probe_branch net cs r))"
  by (simp add: probe_branch_def Let_def split: sum.split)

lemma api_branch_frame:
  "caches_after (api_branch net cs r) = cs \<and>
   CachePut name key \<notin> set (effects (api_branch net cs r))"
  by (simp add: api_branch_def Let_def split: sum.split)

section \<open>No caching of the sensitive classes\<close>

text \<open>
  Claim C1. A request that the handler classifies as captive-portal login, OS
  connectivity probe or backend API call leaves the cache storage exactly as it was and
  performs no \<^verbatim>\<open>cache.put\<close>, whatever the network answers (\<open>net\<close> is arbitrary: a
  response of any status, or a rejection) and whatever the storage quota.
\<close>

theorem sensitive_classes_never_cached:
  assumes "classify r = CaptivePortalLogin \<or> classify r = OsConnectivityProbe \<or>
           classify r = BackendApiCall"
  shows "caches_after (fetch_handler origin net quota cs r) = cs \<and>
         (\<forall>name key. CachePut name key \<notin> set (effects (fetch_handler origin net quota cs r)))"
  using assms hotspot_branch_frame probe_branch_frame api_branch_frame
  by (auto simp: fetch_handler_by_class)

theorem sensitive_classes_never_cached_witness:
  "classify api_request = BackendApiCall \<and>
   caches_after (fetch_handler portal (online (ok_response ''[]'')) True [(CACHE_NAME, [])] api_request)
     = [(CACHE_NAME, [])] \<and>
   classify probe_like_request = OsConnectivityProbe \<and>
   caches_after (fetch_handler portal offline True [] probe_like_request) = [] \<and>
   classify login_request = CaptivePortalLogin \<and>
   caches_after (fetch_handler portal (online (ok_response ''ok'')) True [] login_request) = []"
  using sensitive_classes_never_cached [of api_request portal "online (ok_response ''[]'')" True "[(CACHE_NAME, [])]"]
    sensitive_classes_never_cached [of probe_like_request portal offline True "[]"]
    sensitive_classes_never_cached [of login_request portal "online (ok_response ''ok'')" True "[]"]
  by (simp add: example_classes)

section \<open>Priority of the classification\<close>

text \<open>
  Claim C2 (amended). Classification is first match wins: a GET over http(s) that
  satisfies the hotspot test is captive-portal login whatever the later tests would say,
  so \<^verbatim>\<open>/status?dst=...\<close> is login class also when it is an HTML navigation. The path
  \<^verbatim>\<open>/login.html\<close>, however, is not one of the exact login paths: without a hotspot
  query parameter (and on a host that is no probe host) it is an HTML document.
\<close>

theorem classification_priority:
  assumes "req_method r = ''GET''" and "startsWith (protocol (req_url r)) ''http''"
  shows "(isHotspotURL (req_url r) \<longrightarrow> classify r = CaptivePortalLogin) \<and>
         (pathname (req_url r) = ''/status'' \<and> searchParams_has (req_url r) ''dst''
            \<longrightarrow> classify r = CaptivePortalLogin) \<and>
         (pathname (req_url r) = ''/login.html'' \<and> \<not> isCaptiveProbe (req_url r)
            \<longrightarrow> classify r =
                  (if isHotspotURL (req_url r) then CaptivePortalLogin else HtmlDocument)) \<and>
         (pathname (req_url r) = ''/login.html'' \<and> searchParams (req_url r) = []
            \<longrightarrow> \<not> isHotspotURL (req_url r))"
proof -
  have a: "isHotspotURL (req_url r) \<longrightarrow> classify r = CaptivePortalLogin"
    using assms by (simp add: classify_def Let_def)
  have b: "pathname (req_url r) = ''/status'' \<and> searchParams_has (req_url r) ''dst''
            \<longrightarrow> isHotspotURL (req_url r)"
    by (simp add: isHotspotURL_def Let_def)
  have c: "pathname (req_url r) = ''/login.html'' \<and> \<not> isCaptiveProbe (req_url r)
            \<longrightarrow> classify r =
                  (if isHotspotURL (req_url r) then CaptivePortalLogin else HtmlDocument)"
    using assms
    by (simp add: classify_def Let_def isApiCall_def isStaticAsset_def staticExtensions_def
        isHtmlPage_def endsWith_def startsWith_def)
  have d: "pathname (req_url r) = ''/login.html'' \<and> searchParams (req_url r) = []
            \<longrightarrow> \<not> isHotspotURL (req_url r)"
    by (simp add: isHotspotURL_def searchParams_has_def Let_def)
  from a b c d show ?thesis by blast
qed

theorem classification_priority_witness:
  "isHtmlPage status_request \<and> classify status_request = CaptivePortalLogin \<and>
   classify login_html_request = HtmlDocument"
  using classification_priority [of status_request] classification_priority [of login_html_request]
  by (simp add: request_defs classifier_defs)

theorem login_html_is_html_document:
  "pathname (req_url login_html_request) = ''/login.html'' \<and>
   req_method login_html_request = ''GET'' \<and>
   classify login_html_request = HtmlDocument \<and>
   classify login_html_request \<noteq> CaptivePortalLogin"
  by (simp add: request_defs classifier_defs)

section \<open>Ignored requests\<close>

text \<open>Every request that passes the two guards is answered.\<close>

lemma branches_answer:
  "respondWith (hotspot_branch origin net cs r) \<noteq> None"
  "respondWith (probe_branch net cs r) \<noteq> None"
  "respondWith (api_branch net cs r) \<noteq> None"
  "respondWith (static_branch net quota cs r) \<noteq> None"
  "respondWith (html_branch origin net quota cs r) \<noteq> None"
  "respondWith (default_branch net quota cs r) \<noteq> None"
  by (simp_all add: hotspot_branch_def probe_branch_def api_branch_def static_branch_def
      html_branch_def default_branch_def Let_def split_beta split: sum.split option.split)

lemma handled_requests_are_answered:
  assumes "req_method r = ''GET''" and "startsWith (protocol (req_url r)) ''http''"
  shows "respondWith (fetch_handler origin net quota cs r) \<noteq> None"
  using assms branches_answer
  by (simp add: fetch_handler_def Let_def)

text \<open>
  The two guards as the script writes them: the scheme test is the prefix test
  \<^verbatim>\<open>url.protocol.startsWith('http')\<close>.
\<close>

lemma guards_return_at_once:
  assumes "req_method r \<noteq> ''GET'' \<or> \<not> startsWith (protocol (req_url r)) ''http''"
  shows "fetch_handler origin net quota cs r = not_intercepted cs"
  using assms by (auto simp: fetch_handler_def Let_def)

text \<open>Among the protocols of a browser only \<^verbatim>\<open>http:\<close> and \<^verbatim>\<open>https:\<close> begin with \<^verbatim>\<open>http\<close>.\<close>

lemma browser_protocols_prefix:
  assumes "p \<in> set browser_protocols"
  shows "startsWith p ''http'' \<longleftrightarrow> p = ''http:'' \<or> p = ''https:''"
proof -
  have "list_all (\<lambda>p. startsWith p ''http'' \<longleftrightarrow> p = ''http:'' \<or> p = ''https:'')
          browser_protocols"
    by (simp add: browser_protocols_def startsWith_def)
  then show ?thesis
    using assms by (simp add: list_all_iff)
qed

text \<open>
  Claim C9. A request whose method is not GET, or whose URL scheme is one a browser
  implements and is neither HTTP nor HTTPS, makes the handler return at once:
  \<^verbatim>\<open>respondWith\<close> is not called, and the handler has no effect at all (no cache lookup,
  no cache write, no fetch), so the cache storage is as it was.
\<close>

theorem ignored_requests_fall_through:
  assumes "req_method r \<noteq> ''GET'' \<or>
           (protocol (req_url r) \<in> set browser_protocols \<and>
            protocol (req_url r) \<noteq> ''http:'' \<and> protocol (req_url r) \<noteq> ''https:'')"
  shows "respondWith (fetch_handler origin net quota cs r) = None \<and>
         caches_after (fetch_handler origin net quota cs r) = cs \<and>
         effects (fetch_handler origin net quota cs r) = []"
proof -
  have "req_method r \<noteq> ''GET'' \<or> \<not> startsWith (protocol (req_url r)) ''http''"
    using assms browser_protocols_prefix by blast
  then show ?thesis
    by (simp add: guards_return_at_once not_intercepted_def)
qed

theorem ignored_requests_fall_through_witness:
  "req_method post_request \<noteq> ''GET'' \<and>
   respondWith (fetch_handler portal offline True [] post_request) = None \<and>
   effects (fetch_handler portal offline True [] post_request) = [] \<and>
   req_method extension_request = ''GET'' \<and>
   protocol (req_url extension_request) \<in> set browser_protocols \<and>
   protocol (req_url extension_request) \<noteq> ''http:'' \<and>
   protocol (req_url extension_request) \<noteq> ''https:'' \<and>
   respondWith (fetch_handler portal offline True [] extension_request) = None \<and>
   caches_after (fetch_handler portal offline True [] extension_request) = [] \<and>
   effects (fetch_handler portal offline True [] extension_request) = []"
proof -
  have a: "req_method post_request \<noteq> ''GET''"
    by (simp add: request_defs)
  have b: "req_method extension_request = ''GET'' \<and>
           protocol (req_url extension_request) \<in> set browser_protocols \<and>
           protocol (req_url extension_request) \<noteq> ''http:'' \<and>
           protocol (req_url extension_request) \<noteq> ''https:''"
    by (simp add: request_defs browser_protocols_def)
  show ?thesis
    using a b ignored_requests_fall_through [of post_request portal offline True "[]"]
      ignored_requests_fall_through [of extension_request portal offline True "[]"]
    by simp
qed

section \<open>Probe hosts are matched by containment\<close>

lemma isCaptiveProbe_iff:
  "isCaptiveProbe u \<longleftrightarrow>
     (\<exists>host pre post. host \<in> set probeHosts \<and> hostname u = pre @ host @ post)"
  unfolding isCaptiveProbe_def list_ex_iff str_includes_iff by blast

text \<open>The probe branch, spelled out: the network's answer, or an empty 503; no cache access.\<close>

lemma probe_branch_eq:
  "probe_branch net cs r =
     (case net (href (req_url r)) of
        Inr resp \<Rightarrow> \<lparr> respondWith = Some resp, caches_after = cs,
                     effects = [NetFetch (href (req_url r))] \<rparr>
      | Inl e \<Rightarrow> \<lparr> respondWith = Some \<lparr> status = 503,
                       headers = [(''Content-Type'', ''text/plain;charset=UTF-8'')],
                       body = [] \<rparr>,
                   caches_after = cs, effects = [NetFetch (href (req_url r))] \<rparr>)"
  by (simp add: probe_branch_def new_Response_def Let_def split: sum.split)

text \<open>
  Claim C10 (amended). A hostname that merely contains one of the seven probe domains
  satisfies \<open>isCaptiveProbe\<close>. Such a request is handled by the probe branch (network
  only, an empty 503 when the fetch fails) when it is a GET over http(s) that the hotspot
  test, which comes first, has not already claimed.
\<close>

theorem probe_match_is_containment:
  assumes "host \<in> set probeHosts" and "hostname (req_url r) = pre @ host @ post"
  shows "isCaptiveProbe (req_url r) \<and>
         (req_method r = ''GET'' \<and> startsWith (protocol (req_url r)) ''http'' \<and>
          \<not> isHotspotURL (req_url r) \<longrightarrow>
            classify r = OsConnectivityProbe \<and>
            fetch_handler origin net quota cs r =
              (case net (href (req_url r)) of
                 Inr resp \<Rightarrow> \<lparr> respondWith = Some resp, caches_after = cs,
                              effects = [NetFetch (href (req_url r))] \<rparr>
               | Inl e \<Rightarrow> \<lparr> respondWith = Some \<lparr> status = 503,
                                headers = [(''Content-Type'', ''text/plain;charset=UTF-8'')],
                                body = [] \<rparr>,
                            caches_after = cs, effects = [NetFetch (href (req_url r))] \<rparr>))"
proof -
  have p: "isCaptiveProbe (req_url r)"
    using assms isCaptiveProbe_iff by blast
  then have "classify r = OsConnectivityProbe"
    if "req_method r = ''GET''" "startsWith (protocol (req_url r)) ''http''"
       "\<not> isHotspotURL (req_url r)"
    using that by (simp add: classify_def Let_def)
  then show ?thesis
    using p by (simp add: fetch_handler_by_class probe_branch_eq)
qed

theorem probe_match_is_containment_witness:
  "''msftncsi.com'' \<in> set probeHosts \<and>
   hostname (req_url probe_like_request) = [] @ ''msftncsi.com'' @ ''.evil.example'' \<and>
   hostname (req_url probe_like_request) \<notin> set probeHosts \<and>
   isCaptiveProbe (req_url probe_like_request) \<and>
   classify probe_like_request = OsConnectivityProbe \<and>
   fetch_handler portal offline True [] probe_like_request =
     \<lparr> respondWith = Some \<lparr> status = 503,
         headers = [(''Content-Type'', ''text/plain;charset=UTF-8'')], body = [] \<rparr>,
       caches_after = [],
       effects = [NetFetch ''http://msftncsi.com.evil.example/ncsi.txt''] \<rparr>"
proof -
  have h1: "''msftncsi.com'' \<in> set probeHosts" by (simp add: probeHosts_def)
  have h2: "hostname (req_url probe_like_request) = [] @ ''msftncsi.com'' @ ''.evil.example''"
    by (simp add: request_defs)
  have h3: "req_method probe_like_request = ''GET'' \<and>
            startsWith (protocol (req_url probe_like_request)) ''http'' \<and>
            \<not> isHotspotURL (req_url probe_like_request)"
    by (simp add: request_defs classifier_defs)
  have h4: "hostname (req_url probe_like_request) \<notin> set probeHosts"
    by (simp add: request_defs probeHosts_def)
  have h5: "href (req_url probe_like_request) = ''http://msftncsi.com.evil.example/ncsi.txt''"
    by (simp add: request_defs)
  show ?thesis
    using probe_match_is_containment [OF h1 h2, of portal offline True "[]"] h1 h2 h3 h4
    by (simp add: h5 offline_def)
qed

text \<open>
  A probe-like hostname on the path \<^verbatim>\<open>/login\<close> is taken by the hotspot branch: with
  the network down and nothing cached the answer is the loading page with status 200.
\<close>

theorem probe_host_on_login_path_gets_loading_page:
  "isCaptiveProbe (req_url probe_login_request) \<and>
   req_method probe_login_request = ''GET'' \<and>
   classify probe_login_request = CaptivePortalLogin \<and>
   respondWith (fetch_handler portal offline True [] probe_login_request) =
     Some (new_Response loading_page 200
       [(''Content-Type'', ''text/html; charset=utf-8''),
        (''Cache-Control'', ''no-cache, no-store, must-revalidate'')]) \<and>
   effects (fetch_handler portal offline True [] probe_login_request) =
     [NetFetch ''http://msftncsi.com.evil.example/login'',
      CacheMatch ''http://portal.lan/index.html''] \<and>
   status (new_Response loading_page 200
       [(''Content-Type'', ''text/html; charset=utf-8''),
        (''Cache-Control'', ''no-cache, no-store, must-revalidate'')]) \<noteq> 503"
proof -
  have a: "isCaptiveProbe (req_url probe_login_request) \<and>
           req_method probe_login_request = ''GET''"
    by (simp add: request_defs classifier_defs)
  have b: "respondWith (fetch_handler portal offline True [] probe_login_request) =
     Some (new_Response loading_page 200
       [(''Content-Type'', ''text/html; charset=utf-8''),
        (''Cache-Control'', ''no-cache, no-store, must-revalidate'')])"
    by (simp add: fetch_handler_by_class example_classes hotspot_branch_def Let_def offline_def)
  have c: "effects (fetch_handler portal offline True [] probe_login_request) =
     [NetFetch ''http://msftncsi.com.evil.example/login'',
      CacheMatch ''http://portal.lan/index.html'']"
    by (simp add: fetch_handler_by_class example_classes hotspot_branch_def Let_def offline_def)
       (simp add: request_defs resolve_def)
  show ?thesis using a b c by (simp add: example_classes new_Response_def)
qed

section \<open>The synthesized bodies\<close>

lemma endsWith_append: "endsWith (xs @ p) p"
  by (simp add: endsWith_def)

lemma join_lines_Cons:
  "ls \<noteq> [] \<Longrightarrow> join_lines (l # ls) = l @ [CHR 0x0A] @ join_lines ls"
  by (cases ls) simp_all

lemma startsWith_join_lines: "startsWith (join_lines (l # ls)) l"
  by (cases ls) (simp_all add: startsWith_iff)

lemma endsWith_join_lines: "ls \<noteq> [] \<Longrightarrow> endsWith (join_lines ls) (last ls)"
proof (induction ls rule: join_lines.induct)
  case 1
  then show ?case by simp
next
  case (2 l)
  show ?case using endsWith_append [of "[]" l] by simp
next
  case (3 l m ls)
  then obtain pre where "join_lines (m # ls) = pre @ last (m # ls)"
    by (metis append_take_drop_id endsWith_def list.distinct(1))
  then have "join_lines (l # m # ls) = (l @ [CHR 0x0A] @ pre) @ last (l # m # ls)"
    by simp
  then show ?case
    using endsWith_append by metis
qed

lemma line_in_join_lines:
  "l \<in> set ls \<Longrightarrow> str_includes (join_lines ls) l"
proof (induction ls rule: join_lines.induct)
  case 1
  then show ?case by simp
next
  case (2 m)
  then have "join_lines [m] = [] @ l @ []" by simp
  then show ?case unfolding str_includes_iff by blast
next
  case (3 k m ls)
  show ?case
  proof (cases "l = k")
    case True
    then have "join_lines (k # m # ls) = [] @ l @ ([CHR 0x0A] @ join_lines (m # ls))" by simp
    then show ?thesis unfolding str_includes_iff by blast
  next
    case False
    with 3 have "str_includes (join_lines (m # ls)) l" by simp
    then obtain pre post where "join_lines (m # ls) = pre @ l @ post"
      unfolding str_includes_iff by blast
    then have "join_lines (k # m # ls) = (k @ [CHR 0x0A] @ pre) @ l @ post" by simp
    then show ?thesis unfolding str_includes_iff by blast
  qed
qed

text \<open>
  The loading page is the HTML document of the script: 58 lines, 2195 bytes, from the
  doctype to the closing tag, with its title and the script that reloads the page.
\<close>

lemma loading_page_document:
  "startsWith loading_page ''<!DOCTYPE html>''"
  "endsWith loading_page ''</html>''"
  "str_includes loading_page ''  <title>WiFi Portal Loading...</title>''"
  "str_includes loading_page ''      window.location.reload();''"
proof -
  obtain ls where "loading_page_lines = ''<!DOCTYPE html>'' # ls"
    by (simp add: loading_page_lines_def)
  then show "startsWith loading_page ''<!DOCTYPE html>''"
    unfolding loading_page_def by (metis startsWith_join_lines)
  have "loading_page_lines \<noteq> []" "last loading_page_lines = ''</html>''"
    by (simp_all add: loading_page_lines_def)
  then show "endsWith loading_page ''</html>''"
    unfolding loading_page_def using endsWith_join_lines by metis
  have "''  <title>WiFi Portal Loading...</title>'' \<in> set loading_page_lines"
    by (simp add: loading_page_lines_def)
  then show "str_includes loading_page ''  <title>WiFi Portal Loading...</title>''"
    unfolding loading_page_def by (rule line_in_join_lines)
  have "''      window.location.reload();'' \<in> set loading_page_lines"
    by (simp add: loading_page_lines_def)
  then show "str_includes loading_page ''      window.location.reload();''"
    unfolding loading_page_def by (rule line_in_join_lines)
qed

lemma loading_page_size: "length loading_page_lines = 58 \<and> length loading_page = 2195"
  by (simp add: loading_page_def loading_page_lines_def)


section \<open>Fallbacks when network and cache both fail\<close>

text \<open>Status, body and \<^verbatim>\<open>Content-Type\<close> of a constructed response.\<close>

lemma new_Response_status_body:
  "status (new_Response b st hs) = st" "body (new_Response b st hs) = b"
  by (simp_all add: new_Response_def)
















section \<open>The login scenario\<close>

text \<open>
  Claim C5. GET \<^verbatim>\<open>/login?dst=http%3A%2F%2Fexample.com\<close> (path \<^verbatim>\<open>/login\<close>, query
  parameter \<^verbatim>\<open>dst\<close>): when the fetch succeeds its response is passed on unchanged and
  the cache storage is not written; when it fails the cached \<^verbatim>\<open>/index.html\<close> is
  returned if some store has it, and otherwise the synthesized loading page (the HTML
  document titled "WiFi Portal Loading..." that reloads itself) with status 200 and the
  header \<^verbatim>\<open>Cache-Control: no-cache, no-store, must-revalidate\<close>.
\<close>

theorem login_scenario:
  assumes "req_method r = ''GET''"
    and "startsWith (protocol (req_url r)) ''http''"
    and "pathname (req_url r) = ''/login''"
    and "searchParams (req_url r) = [(''dst'', ''http://example.com'')]"
  shows "caches_after (fetch_handler origin net quota cs r) = cs \<and>
         (\<forall>name k. CachePut name k \<notin> set (effects (fetch_handler origin net quota cs r))) \<and>
         (case net (href (req_url r)) of
            Inr resp \<Rightarrow>
              respondWith (fetch_handler origin net quota cs r) = Some resp \<and>
              effects (fetch_handler origin net quota cs r) = [NetFetch (href (req_url r))]
          | Inl e \<Rightarrow>
              (case caches_match (resolve origin ''/index.html'') cs of
                 Some cached \<Rightarrow> respondWith (fetch_handler origin net quota cs r) = Some cached
               | None \<Rightarrow>
                   (\<exists>page. respondWith (fetch_handler origin net quota cs r) = Some page \<and>
                      status page = 200 \<and>
                      body page = loading_page \<and>
                      startsWith (body page) ''<!DOCTYPE html>'' \<and>
                      str_includes (body page) ''  <title>WiFi Portal Loading...</title>'' \<and>
                      str_includes (body page) ''      window.location.reload();'' \<and>
                      headers_get page ''Cache-Control''
                        = Some ''no-cache, no-store, must-revalidate'' \<and>
                      startsWith ''no-cache, no-store, must-revalidate'' ''no-cache'')))"
proof -
  have "isHotspotURL (req_url r)"
    using assms(3) by (simp add: isHotspotURL_def Let_def)
  then have h: "fetch_handler origin net quota cs r = hotspot_branch origin net cs r"
    using assms(1,2) by (simp add: fetch_handler_def Let_def)
  have ct: "headers_get (new_Response loading_page 200
       [(''Content-Type'', ''text/html; charset=utf-8''),
        (''Cache-Control'', ''no-cache, no-store, must-revalidate'')]) ''Cache-Control''
      = Some ''no-cache, no-store, must-revalidate''"
    by (simp add: new_Response_def headers_get_def)
  have sw: "startsWith ''no-cache, no-store, must-revalidate'' ''no-cache''"
    by (simp add: startsWith_def)
  show ?thesis
    unfolding h using hotspot_branch_frame [of origin net cs r] ct sw
    by (simp add: hotspot_branch_def Let_def new_Response_status_body loading_page_document
        split: sum.split option.split)
qed

theorem login_scenario_witness:
  "respondWith (fetch_handler portal (online (ok_response ''router login'')) True [] login_request)
     = Some (ok_response ''router login'') \<and>
   caches_after (fetch_handler portal (online (ok_response ''router login'')) True [] login_request) = [] \<and>
   respondWith (fetch_handler portal offline True
       [(CACHE_NAME, [(''http://portal.lan/index.html'', index_response)])] login_request)
     = Some index_response \<and>
   (\<exists>page. respondWith (fetch_handler portal offline True [(CACHE_NAME, [])] login_request) = Some page \<and>
      status page = 200 \<and> body page = loading_page \<and>
      headers_get page ''Cache-Control'' = Some ''no-cache, no-store, must-revalidate'')"
proof -
  have a: "req_method login_request = ''GET''"
    "startsWith (protocol (req_url login_request)) ''http''"
    "pathname (req_url login_request) = ''/login''"
    "searchParams (req_url login_request) = [(''dst'', ''http://example.com'')]"
    by (simp_all add: request_defs startsWith_def)
  have m1: "caches_match (resolve portal ''/index.html'')
      [(CACHE_NAME, [(''http://portal.lan/index.html'', index_response)])] = Some index_response"
    by (simp add: resolve_def portal_def)
  have m2: "caches_match (resolve portal ''/index.html'') [(CACHE_NAME, [])] = None"
    by simp
  show ?thesis
    using login_scenario [OF a, of portal "online (ok_response ''router login'')" True "[]"]
      login_scenario [OF a, of portal offline True
        "[(CACHE_NAME, [(''http://portal.lan/index.html'', index_response)])]"]
      login_scenario [OF a, of portal offline True "[(CACHE_NAME, [])]"]
    unfolding m1 m2
    by (simp add: online_def offline_def) blast
qed

section \<open>Facts about the cache storage\<close>

lemma map_of_cache_put: "map_of (cache_put k r c) = (map_of c)(k \<mapsto> r)"
  by (induction c) (auto simp: fun_eq_iff)


lemma caches_keys_update_cache [simp]:
  "caches_keys (update_cache name f cs) = caches_keys cs"
  by (induction cs) (auto simp: caches_keys_def update_cache_def)

lemma map_of_update_cache:
  "map_of (update_cache name f cs) n =
     (if n = name then map_option f (map_of cs n) else map_of cs n)"
  by (induction cs) (auto simp: update_cache_def)

lemma map_of_caches_open:
  "map_of (caches_open name cs) n =
     (if n = name \<and> map_of cs name = None then Some [] else map_of cs n)"
proof -
  have "name \<in> set (caches_keys cs) \<longleftrightarrow> map_of cs name \<noteq> None"
    by (simp add: caches_keys_def map_of_eq_None_iff)
  then show ?thesis
    by (auto simp: caches_open_def map_add_def split: option.split)
qed


lemma caches_keys_caches_put:
  "set (caches_keys (caches_put name k r cs)) = insert name (set (caches_keys cs))"
proof -
  have "caches_keys (caches_put name k r cs) = caches_keys (caches_open name cs)"
    by (simp add: caches_put_def)
  then show ?thesis
    by (auto simp: caches_open_def caches_keys_def)
qed









lemma store_if_200_no_fetch: "NetFetch u \<notin> set (snd (store_if_200 quota r resp cs))"
  by (simp add: store_if_200_def)



section \<open>Cache first for static assets\<close>





section \<open>The cached-response invariant\<close>





















section \<open>Install\<close>

lemma fold_put_lookup:
  "map_of (fold (\<lambda>u c'. case net u of Inr r \<Rightarrow> cache_put u r c' | Inl e \<Rightarrow> c') urls c) k =
     (case (if k \<in> set urls then net k else Inl []) of
        Inr r \<Rightarrow> Some r
      | Inl e \<Rightarrow> map_of c k)"
  by (induction urls arbitrary: c) (auto simp: map_of_cache_put split: sum.splits)

lemma install_seeded:
  assumes "list_all (\<lambda>u. addAll_ok (net u)) (map (resolve origin) STATIC_ASSETS)"
  shows "trace (install origin net cs) =
           CacheOpen CACHE_NAME # map NetFetch (map (resolve origin) STATIC_ASSETS)
             @ map (CachePut CACHE_NAME) (map (resolve origin) STATIC_ASSETS) @ [SkipWaiting]"
    and "u \<in> set (map (resolve origin) STATIC_ASSETS) \<Longrightarrow>
         \<exists>resp. net u = Inr resp \<and> cache_entry (stores (install origin net cs)) CACHE_NAME u = Some resp"
proof -
  let ?urls = "map (resolve origin) STATIC_ASSETS"
  obtain c where c: "map_of (caches_open CACHE_NAME cs) CACHE_NAME = Some c"
    by (cases "map_of cs CACHE_NAME") (auto simp: map_of_caches_open)
  let ?c' = "fold (\<lambda>u c'. case net u of Inr r \<Rightarrow> cache_put u r c' | Inl e \<Rightarrow> c') ?urls c"
  have seeded: "cache_addAll net ?urls c = Inr ?c'"
    using assms by (simp add: cache_addAll_def)
  show "trace (install origin net cs) =
           CacheOpen CACHE_NAME # map NetFetch ?urls @ map (CachePut CACHE_NAME) ?urls @ [SkipWaiting]"
    using c seeded by (simp add: install_def Let_def)
  have st: "stores (install origin net cs) =
              update_cache CACHE_NAME (\<lambda>c. ?c') (caches_open CACHE_NAME cs)"
    using c seeded by (simp add: install_def Let_def)
  show "\<exists>resp. net u = Inr resp \<and> cache_entry (stores (install origin net cs)) CACHE_NAME u = Some resp"
    if u: "u \<in> set ?urls"
  proof -
    from assms u have "addAll_ok (net u)" by (auto simp: list_all_iff)
    then obtain resp where r: "net u = Inr resp"
      by (cases "net u") (auto simp: addAll_ok_def)
    have "map_of ?c' u = Some resp"
      using u r by (simp add: fold_put_lookup)
    then show ?thesis
      using r c by (simp add: st cache_entry_def map_of_update_cache)
  qed
qed

lemma install_not_seeded:
  assumes "\<not> list_all (\<lambda>u. addAll_ok (net u)) (map (resolve origin) STATIC_ASSETS)"
  shows "trace (install origin net cs) =
           CacheOpen CACHE_NAME # map NetFetch (map (resolve origin) STATIC_ASSETS)
             @ [ConsoleError (''[SW] Install failed: '' @
                  ''TypeError: Failed to execute addAll on Cache: Request failed'')]"
    and "stores (install origin net cs) = caches_open CACHE_NAME cs"
  using assms by (simp_all add: install_def cache_addAll_def Let_def)

lemma install_fulfils: "waitUntil (install origin net cs) = None"
  by (simp add: install_def Let_def split: sum.split)

text \<open>
  Claim C3 (amended). The install handler opens the static store and seeds it with the
  manifest. The promise it gives to \<^verbatim>\<open>waitUntil\<close> always fulfils, so install never
  crashes. When seeding succeeds every manifest URL is stored and the worker signals
  skip-waiting; when seeding fails the error is logged, nothing is stored, and
  skip-waiting is not signalled.
\<close>

theorem install_best_effort:
  "waitUntil (install origin net cs) = None \<and>
   (if list_all (\<lambda>u. addAll_ok (net u)) (map (resolve origin) STATIC_ASSETS)
    then SkipWaiting \<in> set (trace (install origin net cs)) \<and>
         (\<forall>e. ConsoleError e \<notin> set (trace (install origin net cs))) \<and>
         (\<forall>u \<in> set (map (resolve origin) STATIC_ASSETS).
            \<exists>resp. net u = Inr resp \<and>
              cache_entry (stores (install origin net cs)) CACHE_NAME u = Some resp)
    else SkipWaiting \<notin> set (trace (install origin net cs)) \<and>
         (\<exists>e. ConsoleError e \<in> set (trace (install origin net cs))) \<and>
         stores (install origin net cs) = caches_open CACHE_NAME cs)"
proof (cases "list_all (\<lambda>u. addAll_ok (net u)) (map (resolve origin) STATIC_ASSETS)")
  case True
  have "SkipWaiting \<in> set (trace (install origin net cs)) \<and>
        (\<forall>e. ConsoleError e \<notin> set (trace (install origin net cs)))"
    unfolding install_seeded(1) [OF True] by auto
  then show ?thesis
    using True install_seeded(2) [OF True] install_fulfils by auto
next
  case False
  have "SkipWaiting \<notin> set (trace (install origin net cs)) \<and>
        (\<exists>e. ConsoleError e \<in> set (trace (install origin net cs)))"
    unfolding install_not_seeded(1) [OF False] by auto
  then show ?thesis
    using False install_not_seeded(2) [OF False] install_fulfils by auto
qed

theorem install_best_effort_witness:
  "waitUntil (install portal (online index_response) []) = None \<and>
   SkipWaiting \<in> set (trace (install portal (online index_response) [])) \<and>
   cache_entry (stores (install portal (online index_response) [])) CACHE_NAME
     ''http://portal.lan/index.html'' = Some index_response \<and>
   waitUntil (install portal offline []) = None \<and>
   SkipWaiting \<notin> set (trace (install portal offline [])) \<and>
   stores (install portal offline []) = [(CACHE_NAME, [])]"
proof -
  have up: "list_all (\<lambda>u. addAll_ok (online index_response u)) (map (resolve portal) STATIC_ASSETS)"
    by (simp add: addAll_ok_def online_def index_response_def ok_response_def STATIC_ASSETS_def
        vary_star_def ascii_lower_def)
  have down: "\<not> list_all (\<lambda>u. addAll_ok (offline u)) (map (resolve portal) STATIC_ASSETS)"
    by (simp add: addAll_ok_def offline_def STATIC_ASSETS_def)
  have u: "''http://portal.lan/index.html'' \<in> set (map (resolve portal) STATIC_ASSETS)"
    by (simp add: STATIC_ASSETS_def resolve_def portal_def)
  have o: "caches_open CACHE_NAME [] = [(CACHE_NAME, [])]"
    by (simp add: caches_open_def caches_keys_def)
  show ?thesis
    using install_best_effort [of portal "online index_response" "[]"]
      install_best_effort [of portal offline "[]"] up down u o
    by (auto simp: online_def)
qed

text \<open>Seeding fails when the network is down: the error is logged, skip-waiting is not signalled.\<close>

theorem install_failure_does_not_skip_waiting:
  "trace (install portal offline []) =
     [CacheOpen CACHE_NAME, NetFetch ''http://portal.lan/'',
      NetFetch ''http://portal.lan/index.html'',
      ConsoleError ''[SW] Install failed: TypeError: Failed to execute addAll on Cache: Request failed''] \<and>
   SkipWaiting \<notin> set (trace (install portal offline [])) \<and>
   waitUntil (install portal offline []) = None"
proof -
  have t: "trace (install portal offline []) =
     [CacheOpen CACHE_NAME, NetFetch ''http://portal.lan/'',
      NetFetch ''http://portal.lan/index.html'',
      ConsoleError ''[SW] Install failed: TypeError: Failed to execute addAll on Cache: Request failed'']"
    by (simp add: install_def cache_addAll_def addAll_ok_def offline_def STATIC_ASSETS_def
        resolve_def portal_def Let_def)
  show ?thesis unfolding t by (simp add: install_fulfils)
qed

end
